theory Spec2Isabelle
  imports Complex_Main "HOL-Library.Sublist" "HOL-Library.AList"
begin

section \<open>Python strings\<close>

text \<open>
  A Python \<open>str\<close> is a sequence of Unicode code points, and \<open>len\<close>, slicing, \<open>in\<close>,
  \<open>lower\<close> and \<open>upper\<close> all work on code points. A string is therefore a list of
  natural numbers; \<open>ascii\<close> turns a literal of the source into its code points.
  The test \<open>sub in s\<close> on two strings is \<^const>\<open>sublist\<close> (a contiguous piece).
\<close>

type_synonym pystr = "nat list"

definition ascii :: "string \<Rightarrow> pystr" where
  "ascii s = map of_char s"

text \<open>
  \<open>str.lower\<close> and \<open>str.upper\<close>. The tables are those of CPython for the code points
  U+0000 to U+00FF (Basic Latin and Latin-1 Supplement) and for the code points that
  \<open>upper\<close> reaches from there: U+00DF (sharp s) has the two-letter upper case \<open>SS\<close>,
  U+00FF goes to U+0178 and U+00B5 (micro sign) to U+039C (Greek capital mu), whose lower
  case is U+03BC. Other code points are left as they are, which is not CPython's table
  for the cased letters beyond U+00FF; the theorem on upper and lower case below
  quantifies over ASCII texts, where the tables are complete.
\<close>

definition lower_cp :: "nat \<Rightarrow> nat" where
  "lower_cp c =
     (if 65 \<le> c \<and> c \<le> 90 then c + 32
      else if 192 \<le> c \<and> c \<le> 222 \<and> c \<noteq> 215 then c + 32
      else if c = 376 then 255
      else if c = 924 then 956
      else c)"

definition upper_cp :: "nat \<Rightarrow> nat list" where
  "upper_cp c =
     (if 97 \<le> c \<and> c \<le> 122 then [c - 32]
      else if c = 181 then [924]
      else if c = 223 then [83, 83]
      else if 224 \<le> c \<and> c \<le> 254 \<and> c \<noteq> 247 then [c - 32]
      else if c = 255 then [376]
      else if c = 956 then [924]
      else [c])"

definition py_lower :: "pystr \<Rightarrow> pystr" where
  "py_lower s = map lower_cp s"

definition py_upper :: "pystr \<Rightarrow> pystr" where
  "py_upper s = concat (map upper_cp s)"

definition is_ascii :: "pystr \<Rightarrow> bool" where
  "is_ascii s = list_all (\<lambda>c. c < 128) s"

section \<open>Specialized agents (agents.py)\<close>

datatype error = ZeroDivisionError | KeyError

text \<open>
  An instance of a subclass of \<open>BaseSpecializedAgent\<close>: the three attributes that
  \<open>__init__\<close> stores, and the list that the subclass's \<open>get_specialty_keywords\<close> returns.
  The backend handle \<open>model\<close> is opaque. The prompt texts (\<open>base_disclaimer\<close>,
  \<open>get_system_prompt\<close>) are static text and are not part of the record.
\<close>

record 'm agent =
  model :: 'm
  specialty :: pystr
  specialty_icon :: pystr
  get_specialty_keywords :: "pystr list"

text \<open>
  \<open>BaseSpecializedAgent.__init__\<close> assigns its arguments and returns; it has no check
  and no \<open>raise\<close>. The last argument stands for the subclass's keyword method.
\<close>

definition BaseSpecializedAgent :: "'m \<Rightarrow> pystr \<Rightarrow> pystr \<Rightarrow> pystr list \<Rightarrow> 'm agent" where
  "BaseSpecializedAgent m sp icon kws =
     \<lparr>model = m, specialty = sp, specialty_icon = icon, get_specialty_keywords = kws\<rparr>"

text \<open>
  \<open>get_confidence_score\<close>. Python's \<open>/\<close> on two ints is true division and raises
  \<open>ZeroDivisionError\<close> for a zero divisor. Scores are exact rationals here: doubling is
  exact in binary floating point, so the float the code returns is the correctly rounded
  quotient doubled, and the comparisons with the thresholds 0.3 and 0.2 agree with the
  rational ones for every keyword list of realistic size.
\<close>

definition get_confidence_score :: "'m agent \<Rightarrow> pystr \<Rightarrow> error + rat" where
  "get_confidence_score self report_text =
     (let keywords = get_specialty_keywords self;
          text_lower = py_lower report_text;
          matches = length (filter (\<lambda>keyword. sublist (py_lower keyword) text_lower) keywords)
      in if length keywords = 0 then Inl ZeroDivisionError
         else Inr (min (of_nat matches / of_nat (length keywords) * 2) 1))"

definition CardiologistAgent :: "'m \<Rightarrow> 'm agent" where
  "CardiologistAgent m =
     BaseSpecializedAgent m (ascii ''Cardiology'') [0x1FAC0]
       (map ascii
         [''heart'', ''cardiac'', ''cardiovascular'', ''coronary'', ''artery'', ''blood pressure'',
          ''hypertension'', ''cholesterol'', ''ECG'', ''EKG'', ''echocardiogram'', ''chest pain'',
          ''palpitations'', ''shortness of breath'', ''angina'', ''myocardial'', ''infarction'',
          ''stroke'', ''atherosclerosis'', ''valve'', ''rhythm'', ''arrhythmia'', ''tachycardia'',
          ''bradycardia'', ''murmur'', ''lipid'', ''triglycerides'', ''HDL'', ''LDL''])"

definition PsychologistAgent :: "'m \<Rightarrow> 'm agent" where
  "PsychologistAgent m =
     BaseSpecializedAgent m (ascii ''Psychology/Mental Health'') [0x1F9E0]
       (map ascii
         [''depression'', ''anxiety'', ''stress'', ''mood'', ''mental'', ''psychological'',
          ''sleep'', ''insomnia'', ''fatigue'', ''cognitive'', ''memory'', ''concentration'',
          ''panic'', ''phobia'', ''trauma'', ''PTSD'', ''bipolar'', ''psychosis'', ''therapy'',
          ''counseling'', ''psychiatric'', ''antidepressant'', ''anxiolytic'', ''behavior'',
          ''emotional'', ''social'', ''isolation'', ''suicidal'', ''self-harm'', ''addiction''])"

definition PulmonologistAgent :: "'m \<Rightarrow> 'm agent" where
  "PulmonologistAgent m =
     BaseSpecializedAgent m (ascii ''Pulmonology'') [0x1FAC1]
       (map ascii
         [''lung'', ''pulmonary'', ''respiratory'', ''breathing'', ''breath'', ''cough'',
          ''asthma'', ''COPD'', ''pneumonia'', ''bronchitis'', ''chest'', ''wheeze'',
          ''shortness of breath'', ''dyspnea'', ''oxygen'', ''saturation'', ''spirometry'',
          ''chest X-ray'', ''CT scan'', ''tuberculosis'', ''emphysema'', ''fibrosis'',
          ''apnea'', ''smoking'', ''tobacco'', ''inhaler'', ''nebulizer'', ''sputum''])"

definition GeneralMedicineAgent :: "'m \<Rightarrow> 'm agent" where
  "GeneralMedicineAgent m =
     BaseSpecializedAgent m (ascii ''General Medicine'') [0x1FA7A]
       (map ascii
         [''general'', ''overall'', ''health'', ''medical'', ''examination'', ''screening'',
          ''laboratory'', ''blood test'', ''urine'', ''vital signs'', ''temperature'',
          ''weight'', ''BMI'', ''vaccination'', ''medication'', ''prescription'', ''dosage''])"

section \<open>The agent router (agents.py)\<close>

text \<open>
  \<open>self.agents\<close> is a dict literal; its iteration order is the order of insertion, so the
  dict is an association list. \<open>MedicalAgentRouter.__init__\<close> builds the four fixed agents
  and has no check and no \<open>raise\<close>. Dictionary keys are plain literals of the source and
  are kept as \<^typ>\<open>string\<close>.
\<close>

record 'm router =
  router_model :: 'm
  agents :: "(string \<times> 'm agent) list"

definition MedicalAgentRouter :: "'m \<Rightarrow> 'm router" where
  "MedicalAgentRouter m =
     \<lparr>router_model = m,
      agents = [(''cardiology'', CardiologistAgent m),
                (''psychology'', PsychologistAgent m),
                (''pulmonology'', PulmonologistAgent m),
                (''general'', GeneralMedicineAgent m)]\<rparr>"

text \<open>
  The scoring loop of \<open>route_to_agent\<close>: every agent but \<open>"general"\<close> is scored on the
  same text, and the score is stored under the agent's key. An exception of
  \<open>get_confidence_score\<close> leaves the loop.
\<close>

fun score_agents ::
  "(string \<times> 'm agent) list \<Rightarrow> pystr \<Rightarrow> (string \<times> rat) list \<Rightarrow> error + (string \<times> rat) list"
where
  "score_agents [] txt confidence_scores = Inr confidence_scores"
| "score_agents ((agent_key, agent) # rest) txt confidence_scores =
     (if agent_key \<noteq> ''general'' then
        (case get_confidence_score agent txt of
           Inl e \<Rightarrow> Inl e
         | Inr c \<Rightarrow> score_agents rest txt (AList.update agent_key c confidence_scores))
      else score_agents rest txt confidence_scores)"

text \<open>
  \<open>max(confidence_scores, key=confidence_scores.get)\<close> on a non-empty dict: the keys are
  visited in order, and the running maximum is replaced only by a strictly larger value,
  so the first key with the largest value is returned.
\<close>

fun max_by_value :: "(string \<times> rat) list \<Rightarrow> string \<times> rat \<Rightarrow> string \<times> rat" where
  "max_by_value [] best = best"
| "max_by_value ((k, v) # rest) (bk, bv) =
     max_by_value rest (if bv < v then (k, v) else (bk, bv))"

definition route_to_agent ::
  "'m router \<Rightarrow> pystr \<Rightarrow> pystr \<Rightarrow> pystr
     \<Rightarrow> error + (string \<times> 'm agent \<times> (string \<times> rat) list)"
where
  "route_to_agent self report_text symptoms medical_history =
     (case score_agents (agents self) (report_text @ ascii '' '' @ symptoms) [] of
        Inl e \<Rightarrow> Inl e
      | Inr confidence_scores \<Rightarrow>
          let (best_agent_key, confidence_scores') =
                (case confidence_scores of
                   [] \<Rightarrow> (''general'', AList.update ''general'' 1 confidence_scores)
                 | first # rest \<Rightarrow>
                     let (best_agent_key, best_confidence) = max_by_value rest first
                     in if best_confidence < 3 / 10
                        then (''general'', AList.update ''general'' 1 confidence_scores)
                        else (best_agent_key, confidence_scores))
          in (case map_of (agents self) best_agent_key of
                None \<Rightarrow> Inl KeyError
              | Some a \<Rightarrow> Inr (best_agent_key, a, confidence_scores')))"

section \<open>The retrying completion client (agents.py)\<close>

text \<open>
  \<open>optimize_prompt\<close> stands in \<open>agents.py\<close> and, line for line the same, in \<open>app.py\<close>;
  \<open>make_api_call_with_retry\<close> is the one of \<open>agents.py\<close>, which the agents call.
\<close>

text \<open>
  \<open>str.split('\n')\<close> and \<open>'\n'.join\<close>, for any separator. \<open>split\<close> never returns the
  empty list (the empty string splits into one empty piece), so the second branch of
  the \<open>case\<close> is never taken.
\<close>

fun split :: "'a \<Rightarrow> 'a list \<Rightarrow> 'a list list" where
  "split sep [] = [[]]"
| "split sep (c # s) =
     (if c = sep then [] # split sep s
      else (case split sep s of l # ls \<Rightarrow> (c # l) # ls | [] \<Rightarrow> [[c]]))"

fun join :: "'a list \<Rightarrow> 'a list list \<Rightarrow> 'a list" where
  "join sep [] = []"
| "join sep [l] = l"
| "join sep (l # ls) = l @ sep @ join sep ls"

text \<open>The slice \<open>s[:k]\<close>: a negative \<open>k\<close> counts from the end of the string.\<close>

definition slice_to :: "'a list \<Rightarrow> int \<Rightarrow> 'a list" where
  "slice_to s k = (if 0 \<le> k then take (nat k) s else take (nat (int (length s) + k)) s)"

definition has_marker :: "pystr \<Rightarrow> bool" where
  "has_marker line \<longleftrightarrow>
     sublist (ascii ''MEDICAL REPORT:'') line \<or> sublist (ascii ''Please analyze'') line"

definition truncation_marker :: pystr where
  "truncation_marker = [10, 10] @ ascii ''[Content truncated to reduce token usage]''"

text \<open>
  The loop of \<open>optimize_prompt\<close> over the lines, with its flag \<open>in_system\<close> and the two
  lists it appends to.
\<close>

fun partition_lines ::
  "pystr list \<Rightarrow> bool \<Rightarrow> pystr list \<Rightarrow> pystr list \<Rightarrow> pystr list \<times> pystr list"
where
  "partition_lines [] in_system system_lines content_lines = (system_lines, content_lines)"
| "partition_lines (line # rest) in_system system_lines content_lines =
     (let in_system' = (if has_marker line then False else in_system)
      in if in_system' then partition_lines rest in_system' (system_lines @ [line]) content_lines
         else partition_lines rest in_system' system_lines (content_lines @ [line]))"

definition optimize_prompt :: "pystr \<Rightarrow> int \<Rightarrow> pystr" where
  "optimize_prompt prompt max_tokens =
     (if int (length prompt) > max_tokens then
        let lines = split 10 prompt;
            (system_lines, content_lines) = partition_lines lines True [] [];
            system_text = join [10] system_lines;
            content_text = join [10] content_lines;
            content_text' =
              (if int (length (system_text @ content_text)) > max_tokens
               then slice_to content_text (max_tokens - int (length system_text) - 100)
                      @ truncation_marker
               else content_text)
        in system_text @ [10] @ content_text'
      else prompt)"



text \<open>
  The world outside the program. \<open>generate_content env m n p\<close> is what the \<open>n\<close>-th call
  of the run (counted from 0) to the backend \<open>m\<close> with prompt \<open>p\<close> does: it returns a
  response with a text, or raises an exception whose \<open>str\<close> is given.
  \<open>uniform env n\<close> is the value of the \<open>n\<close>-th draw of \<open>random.uniform(0, 1)\<close>.
  The state records how many calls and draws were made and the delays handed to
  \<open>time.sleep\<close>, oldest first. \<open>time.sleep\<close> is taken to return normally, as it does for
  every delay that is not negative; a negative delay needs a negative \<open>base_delay\<close>.
\<close>

datatype response = Returns pystr | Raises pystr

record 'm environment =
  generate_content :: "'m \<Rightarrow> nat \<Rightarrow> pystr \<Rightarrow> response"
  uniform :: "nat \<Rightarrow> rat"

record world =
  calls :: nat
  draws :: nat
  sleeps :: "rat list"

text \<open>
  The four \<open>return\<close> statements of \<open>make_api_call_with_retry\<close>, and the string each of
  them returns.
\<close>

datatype outcome = BackendText pystr | ServiceUnavailable | GenericFailure | MaxRetriesExceeded

definition service_unavailable_text :: pystr where
  "service_unavailable_text =
     [0x1F6AB] @ ascii '' **Service Temporarily Unavailable** - Please try again in a few minutes.''"

definition generic_failure_text :: pystr where
  "generic_failure_text =
     ascii ''Sorry, there was an issue processing your request. Please try again.''"

definition max_retries_text :: pystr where
  "max_retries_text = ascii ''Maximum retry attempts exceeded. Please try again later.''"

fun returned_text :: "outcome \<Rightarrow> pystr" where
  "returned_text (BackendText t) = t"
| "returned_text ServiceUnavailable = service_unavailable_text"
| "returned_text GenericFailure = generic_failure_text"
| "returned_text MaxRetriesExceeded = max_retries_text"

definition is_rate_limit :: "pystr \<Rightarrow> bool" where
  "is_rate_limit error_str \<longleftrightarrow>
     sublist (ascii ''429'') error_str
     \<or> sublist (ascii ''quota'') (py_lower error_str)
     \<or> sublist (ascii ''rate limit'') (py_lower error_str)"

text \<open>
  The loop \<open>for attempt in range(max_retries)\<close>, from the attempt \<open>attempt\<close> on. The
  last branch is the statement after the loop.
\<close>

function retry_loop ::
  "'m environment \<Rightarrow> 'm \<Rightarrow> pystr \<Rightarrow> int \<Rightarrow> rat \<Rightarrow> nat \<Rightarrow> world \<Rightarrow> outcome \<times> world"
where
  "retry_loop env m optimized_prompt max_retries base_delay attempt w =
     (if int attempt < max_retries then
        (let w1 = w\<lparr>calls := calls w + 1\<rparr>
         in case generate_content env m (calls w) optimized_prompt of
              Returns t \<Rightarrow> (BackendText t, w1)
            | Raises error_str \<Rightarrow>
                if is_rate_limit error_str then
                  if int attempt < max_retries - 1 then
                    (let retry_delay = base_delay * 2 ^ attempt + uniform env (draws w1);
                         w2 = w1\<lparr>draws := draws w1 + 1, sleeps := sleeps w1 @ [retry_delay]\<rparr>
                     in retry_loop env m optimized_prompt max_retries base_delay (attempt + 1) w2)
                  else (ServiceUnavailable, w1)
                else (GenericFailure, w1))
      else (MaxRetriesExceeded, w))"
  by pat_completeness auto
termination
  by (relation "measure (\<lambda>(env, m, p, max_retries, base_delay, attempt, w).
                   nat (max_retries - int attempt))") auto

declare retry_loop.simps [simp del]


text \<open>
  \<open>make_api_call_with_retry\<close> is the function of the source: it returns a string and
  leaves the world changed. \<open>make_api_call_with_retry_outcome\<close> is the same run, and says
  through which \<open>return\<close> statement it ends.
\<close>

definition make_api_call_with_retry_outcome ::
  "'m environment \<Rightarrow> 'm \<Rightarrow> pystr \<Rightarrow> int \<Rightarrow> rat \<Rightarrow> world \<Rightarrow> outcome \<times> world"
where
  "make_api_call_with_retry_outcome env m prompt max_retries base_delay w =
     (let optimized_prompt = optimize_prompt prompt 2000
      in retry_loop env m optimized_prompt max_retries base_delay 0 w)"

definition make_api_call_with_retry ::
  "'m environment \<Rightarrow> 'm \<Rightarrow> pystr \<Rightarrow> int \<Rightarrow> rat \<Rightarrow> world \<Rightarrow> pystr \<times> world"
where
  "make_api_call_with_retry env m prompt max_retries base_delay w =
     (let (r, w') = make_api_call_with_retry_outcome env m prompt max_retries base_delay w
      in (returned_text r, w'))"

section \<open>Multi-agent analysis (agents.py)\<close>

text \<open>
  \<open>analyze_report\<close> fills the agent's f-string with the three inputs and calls the
  client with the default \<open>max_retries = 3\<close> and \<open>base_delay = 1\<close>. The text of the
  f-string is the parameter \<open>template\<close>.
\<close>

type_synonym 'm template = "'m agent \<Rightarrow> pystr \<Rightarrow> pystr \<Rightarrow> pystr \<Rightarrow> pystr"

definition analyze_report ::
  "'m environment \<Rightarrow> 'm template \<Rightarrow> 'm agent \<Rightarrow> pystr \<Rightarrow> pystr \<Rightarrow> pystr \<Rightarrow> world
     \<Rightarrow> pystr \<times> world"
where
  "analyze_report env template self report_text symptoms medical_history w =
     make_api_call_with_retry env (model self)
       (template self report_text symptoms medical_history) 3 1 w"

text \<open>
  The dict that \<open>get_multi_agent_analysis\<close> returns: the entry \<open>"primary_agent"\<close> with
  its four fields, the dict \<open>"secondary_agents"\<close> with three fields for each key, and
  \<open>"all_confidence_scores"\<close>.
\<close>

record 'm primary =
  p_key :: string
  p_agent :: "'m agent"
  p_analysis :: pystr
  p_confidence :: rat

record 'm secondary =
  s_agent :: "'m agent"
  s_analysis :: pystr
  s_confidence :: rat

record 'm analysis =
  res_primary_agent :: "'m primary"
  res_secondary_agents :: "(string \<times> 'm secondary) list"
  res_all_confidence_scores :: "(string \<times> rat) list"

text \<open>The loop of \<open>get_multi_agent_analysis\<close> over \<open>confidence_scores.items()\<close>.\<close>

fun secondary_loop ::
  "'m environment \<Rightarrow> 'm template \<Rightarrow> 'm router \<Rightarrow> string \<Rightarrow> pystr \<Rightarrow> pystr \<Rightarrow> pystr
     \<Rightarrow> (string \<times> rat) list \<Rightarrow> (string \<times> 'm secondary) list \<Rightarrow> world
     \<Rightarrow> error + ((string \<times> 'm secondary) list \<times> world)"
where
  "secondary_loop env template self primary_agent_key report_text symptoms medical_history
     [] secondary_analyses w = Inr (secondary_analyses, w)"
| "secondary_loop env template self primary_agent_key report_text symptoms medical_history
     ((agent_key, confidence) # rest) secondary_analyses w =
     (if agent_key \<noteq> primary_agent_key \<and> confidence > 2 / 10 then
        (case map_of (agents self) agent_key of
           None \<Rightarrow> Inl KeyError
         | Some a \<Rightarrow>
             let (analysis, w') = analyze_report env template a report_text symptoms medical_history w
             in secondary_loop env template self primary_agent_key report_text symptoms
                  medical_history rest
                  (AList.update agent_key
                     \<lparr>s_agent = a, s_analysis = analysis, s_confidence = confidence\<rparr>
                     secondary_analyses) w')
      else secondary_loop env template self primary_agent_key report_text symptoms
             medical_history rest secondary_analyses w)"

definition get_multi_agent_analysis ::
  "'m environment \<Rightarrow> 'm template \<Rightarrow> 'm router \<Rightarrow> pystr \<Rightarrow> pystr \<Rightarrow> pystr \<Rightarrow> world
     \<Rightarrow> error + ('m analysis \<times> world)"
where
  "get_multi_agent_analysis env template self report_text symptoms medical_history w =
     (case route_to_agent self report_text symptoms medical_history of
        Inl e \<Rightarrow> Inl e
      | Inr (primary_agent_key, primary_agent, confidence_scores) \<Rightarrow>
          let (primary_analysis, w1) =
                analyze_report env template primary_agent report_text symptoms medical_history w
          in (case secondary_loop env template self primary_agent_key report_text symptoms
                     medical_history confidence_scores [] w1 of
                Inl e \<Rightarrow> Inl e
              | Inr (secondary_analyses, w2) \<Rightarrow>
                  Inr (\<lparr>res_primary_agent =
                          \<lparr>p_key = primary_agent_key,
                           p_agent = primary_agent,
                           p_analysis = primary_analysis,
                           p_confidence =
                             (case map_of confidence_scores primary_agent_key of
                                None \<Rightarrow> 1 | Some c \<Rightarrow> c)\<rparr>,
                        res_secondary_agents = secondary_analyses,
                        res_all_confidence_scores = confidence_scores\<rparr>, w2)))"

section \<open>Sample inputs\<close>

text \<open>
  Concrete inputs on which the theorems below are exercised: a report that mentions
  five cardiology keywords and three pulmonology keywords, a backend that always answers,
  a prompt template that passes the report through, and the initial state of the world.
\<close>

definition sample_report :: pystr where
  "sample_report = ascii ''heart valve ECG chest pain shortness of breath''"


definition answering_backend :: "unit environment" where
  "answering_backend =
     \<lparr>generate_content = (\<lambda>m n p. Returns (ascii ''ok'')), uniform = (\<lambda>n. 0)\<rparr>"

definition plain_template :: "unit template" where
  "plain_template a report_text symptoms medical_history = report_text"

definition initial_world :: world where
  "initial_world = \<lparr>calls = 0, draws = 0, sleeps = []\<rparr>"







section \<open>Facts about strings\<close>




lemma lower_upper_cp: "c < 128 \<Longrightarrow> map lower_cp (upper_cp c) = [lower_cp c]"
  unfolding lower_cp_def upper_cp_def by (simp split: if_splits) arith

lemma py_lower_upper: "is_ascii s \<Longrightarrow> py_lower (py_upper s) = py_lower s"
  by (induction s) (simp_all add: py_lower_def py_upper_def is_ascii_def lower_upper_cp)

lemma lower_cp_idem: "lower_cp (lower_cp c) = lower_cp c"
  by (simp add: lower_cp_def)

lemma py_lower_idem: "py_lower (py_lower s) = py_lower s"
  by (simp add: py_lower_def lower_cp_idem)

lemma get_confidence_score_Inr:
  "get_specialty_keywords a \<noteq> [] \<Longrightarrow>
   get_confidence_score a txt =
     Inr (min (of_nat (length (filter (\<lambda>k. sublist (py_lower k) (py_lower txt))
                                 (get_specialty_keywords a)))
               / of_nat (length (get_specialty_keywords a)) * 2) 1)"
  by (simp add: get_confidence_score_def Let_def)

lemma get_confidence_score_lower_eq:
  "py_lower t1 = py_lower t2 \<Longrightarrow> get_confidence_score a t1 = get_confidence_score a t2"
  by (simp add: get_confidence_score_def)

section \<open>Confidence scoring\<close>




text \<open>
  C9 (amended). Scoring is case-insensitive on ASCII texts: for every keyword list and
  every text made of ASCII characters only, the score of the text, of its upper-case
  form and of its lower-case form are the same (all three raise for an empty keyword
  list).
\<close>

theorem get_confidence_score_case_insensitive:
  assumes "is_ascii txt"
  shows "get_confidence_score a (py_upper txt) = get_confidence_score a txt
         \<and> get_confidence_score a (py_lower txt) = get_confidence_score a txt"
proof
  show "get_confidence_score a (py_upper txt) = get_confidence_score a txt"
    using assms by (intro get_confidence_score_lower_eq py_lower_upper)
  show "get_confidence_score a (py_lower txt) = get_confidence_score a txt"
    by (intro get_confidence_score_lower_eq py_lower_idem)
qed

theorem get_confidence_score_case_insensitive_witness:
  "is_ascii (ascii ''Chest Pain'')
   \<and> get_confidence_score (CardiologistAgent ()) (py_upper (ascii ''Chest Pain''))
       = get_confidence_score (CardiologistAgent ()) (ascii ''Chest Pain'')
   \<and> get_confidence_score (CardiologistAgent ()) (py_lower (ascii ''Chest Pain''))
       = get_confidence_score (CardiologistAgent ()) (ascii ''Chest Pain'')"
proof -
  have h: "is_ascii (ascii ''Chest Pain'')"
    by (simp add: is_ascii_def ascii_def)
  show ?thesis
    using h get_confidence_score_case_insensitive [OF h, of "CardiologistAgent ()"] by simp
qed

text \<open>
  The claim as written fails beyond ASCII. The upper case of U+00DF (sharp s) is \<open>SS\<close>:
  the text \<open>stre\<close> followed by U+00DF does not contain the psychology keyword \<open>stress\<close>,
  its upper-case form \<open>STRESS\<close> does.
\<close>

theorem get_confidence_score_sharp_s_counterexample:
  "get_confidence_score (PsychologistAgent ()) (ascii ''stre'' @ [223]) = Inr 0
   \<and> get_confidence_score (PsychologistAgent ()) (py_upper (ascii ''stre'' @ [223])) = Inr (1 / 15)"
  by (simp add: PsychologistAgent_def BaseSpecializedAgent_def get_confidence_score_def
        ascii_def py_lower_def py_upper_def lower_cp_def upper_cp_def sublist_code)

section \<open>Construction and the empty keyword list\<close>

lemma router_keywords_nonempty:
  "get_specialty_keywords (CardiologistAgent m) \<noteq> []"
  "get_specialty_keywords (PsychologistAgent m) \<noteq> []"
  "get_specialty_keywords (PulmonologistAgent m) \<noteq> []"
  "get_specialty_keywords (GeneralMedicineAgent m) \<noteq> []"
  by (simp_all add: CardiologistAgent_def PsychologistAgent_def PulmonologistAgent_def
        GeneralMedicineAgent_def BaseSpecializedAgent_def)

text \<open>
  C4 (amended). Constructing a specialized agent never fails, whatever its keyword
  list: the constructor stores what it is given. An agent with an empty keyword list
  fails at scoring time, with \<open>ZeroDivisionError\<close>, on every text. Scoring with a
  non-empty keyword list never divides by zero, and each of the four agents that the
  router constructs has a non-empty keyword list.
\<close>

theorem empty_keywords_fail_at_scoring:
  "get_specialty_keywords (BaseSpecializedAgent m sp icon kws) = kws
   \<and> (kws = [] \<longrightarrow> get_confidence_score (BaseSpecializedAgent m sp icon kws) txt
                      = Inl ZeroDivisionError)
   \<and> (kws \<noteq> [] \<longrightarrow> (\<exists>c. get_confidence_score (BaseSpecializedAgent m sp icon kws) txt = Inr c))
   \<and> (\<forall>(k, a) \<in> set (agents (MedicalAgentRouter m)).
         \<exists>c. get_confidence_score a txt = Inr c)"
proof -
  have "\<forall>(k, a) \<in> set (agents (MedicalAgentRouter m)). get_specialty_keywords a \<noteq> []"
    by (simp add: MedicalAgentRouter_def router_keywords_nonempty)
  then have "\<forall>(k, a) \<in> set (agents (MedicalAgentRouter m)).
               \<exists>c. get_confidence_score a txt = Inr c"
    by (auto simp: get_confidence_score_Inr)
  then show ?thesis
    by (simp add: BaseSpecializedAgent_def get_confidence_score_def Let_def)
qed

theorem empty_keywords_fail_at_scoring_witness:
  "get_confidence_score (BaseSpecializedAgent () (ascii ''Demo'') [] []) (ascii ''heart'')
     = Inl ZeroDivisionError
   \<and> (\<exists>c. get_confidence_score (BaseSpecializedAgent () (ascii ''Demo'') [] [ascii ''heart''])
             (ascii ''heart'') = Inr c)
   \<and> (\<exists>c. get_confidence_score (GeneralMedicineAgent ()) (ascii ''heart'') = Inr c)"
  using empty_keywords_fail_at_scoring [of "()" "ascii ''Demo''" "[]" "[]" "ascii ''heart''"]
        empty_keywords_fail_at_scoring
          [of "()" "ascii ''Demo''" "[]" "[ascii ''heart'']" "ascii ''heart''"]
  by (simp add: MedicalAgentRouter_def)

text \<open>
  The claim as written fails: an agent with an empty keyword list is constructed
  without any error, and the error is raised later, when the agent scores a text.
\<close>

theorem empty_keywords_construction_counterexample:
  "BaseSpecializedAgent () (ascii ''Demo'') [] []
     = \<lparr>model = (), specialty = ascii ''Demo'', specialty_icon = [], get_specialty_keywords = []\<rparr>
   \<and> get_confidence_score (BaseSpecializedAgent () (ascii ''Demo'') [] []) []
       = Inl ZeroDivisionError"
  by (simp add: BaseSpecializedAgent_def get_confidence_score_def)

section \<open>Routing\<close>

lemma router_scores_exist:
  "\<exists>c1 c2 c3. get_confidence_score (CardiologistAgent m) txt = Inr c1
     \<and> get_confidence_score (PsychologistAgent m) txt = Inr c2
     \<and> get_confidence_score (PulmonologistAgent m) txt = Inr c3"
  by (simp add: get_confidence_score_Inr router_keywords_nonempty)

lemma score_agents_router:
  assumes "get_confidence_score (CardiologistAgent m) txt = Inr c1"
    and "get_confidence_score (PsychologistAgent m) txt = Inr c2"
    and "get_confidence_score (PulmonologistAgent m) txt = Inr c3"
  shows "score_agents (agents (MedicalAgentRouter m)) txt []
           = Inr [(''cardiology'', c1), (''psychology'', c2), (''pulmonology'', c3)]"
  using assms by (simp add: MedicalAgentRouter_def)

text \<open>
  What \<open>route_to_agent\<close> returns on the router of the program, from the three scores:
  the first of the three keys whose score is the largest, unless that score is below 0.3.
\<close>

lemma route_router:
  assumes "get_confidence_score (CardiologistAgent m) (report_text @ ascii '' '' @ symptoms) = Inr c1"
    and "get_confidence_score (PsychologistAgent m) (report_text @ ascii '' '' @ symptoms) = Inr c2"
    and "get_confidence_score (PulmonologistAgent m) (report_text @ ascii '' '' @ symptoms) = Inr c3"
  shows "route_to_agent (MedicalAgentRouter m) report_text symptoms medical_history =
          (if max c1 (max c2 c3) < 3 / 10
           then Inr (''general'', GeneralMedicineAgent m,
                  [(''cardiology'', c1), (''psychology'', c2), (''pulmonology'', c3), (''general'', 1)])
           else Inr (if c2 \<le> c1 \<and> c3 \<le> c1 then (''cardiology'', CardiologistAgent m,
                        [(''cardiology'', c1), (''psychology'', c2), (''pulmonology'', c3)])
                     else if c3 \<le> c2 then (''psychology'', PsychologistAgent m,
                        [(''cardiology'', c1), (''psychology'', c2), (''pulmonology'', c3)])
                     else (''pulmonology'', PulmonologistAgent m,
                        [(''cardiology'', c1), (''psychology'', c2), (''pulmonology'', c3)])))"
  unfolding route_to_agent_def score_agents_router [OF assms]
  by (simp add: MedicalAgentRouter_def max_def)

lemma blank_scores:
  "get_confidence_score (CardiologistAgent ()) ([] @ ascii '' '' @ []) = Inr 0"
  "get_confidence_score (PsychologistAgent ()) ([] @ ascii '' '' @ []) = Inr 0"
  "get_confidence_score (PulmonologistAgent ()) ([] @ ascii '' '' @ []) = Inr 0"
  by (simp_all add: CardiologistAgent_def PsychologistAgent_def PulmonologistAgent_def
        BaseSpecializedAgent_def get_confidence_score_def ascii_def py_lower_def lower_cp_def
        sublist_code)

lemma sample_scores:
  "get_confidence_score (CardiologistAgent ()) (sample_report @ ascii '' '' @ []) = Inr (10 / 29)"
  "get_confidence_score (PsychologistAgent ()) (sample_report @ ascii '' '' @ []) = Inr 0"
  "get_confidence_score (PulmonologistAgent ()) (sample_report @ ascii '' '' @ []) = Inr (3 / 14)"
  by (simp_all add: CardiologistAgent_def PsychologistAgent_def PulmonologistAgent_def
        BaseSpecializedAgent_def get_confidence_score_def sample_report_def ascii_def
        py_lower_def lower_cp_def sublist_code)

text \<open>
  C2. Let \<open>c1\<close>, \<open>c2\<close>, \<open>c3\<close> be the confidence scores of the three non-general
  specialties on \<open>report_text + " " + symptoms\<close>. If their maximum is below 0.3,
  \<open>route_to_agent\<close> returns the key \<open>"general"\<close> with the general agent, and the returned
  confidence map records exactly 1 for \<open>"general"\<close>, whichever specialty had the maximum.
  Otherwise the returned key is one of the three specialties, its recorded score is
  the maximum, and the agent returned is the one stored under that key.
\<close>

theorem route_to_agent_threshold:
  assumes "get_confidence_score (CardiologistAgent m) (report_text @ ascii '' '' @ symptoms) = Inr c1"
    and "get_confidence_score (PsychologistAgent m) (report_text @ ascii '' '' @ symptoms) = Inr c2"
    and "get_confidence_score (PulmonologistAgent m) (report_text @ ascii '' '' @ symptoms) = Inr c3"
  shows "(max c1 (max c2 c3) < 3 / 10 \<longrightarrow>
           (\<exists>scores. route_to_agent (MedicalAgentRouter m) report_text symptoms medical_history
                        = Inr (''general'', GeneralMedicineAgent m, scores)
                    \<and> map_of scores ''general'' = Some 1))
         \<and> (\<not> max c1 (max c2 c3) < 3 / 10 \<longrightarrow>
           (\<exists>best a. route_to_agent (MedicalAgentRouter m) report_text symptoms medical_history
                        = Inr (best, a,
                               [(''cardiology'', c1), (''psychology'', c2), (''pulmonology'', c3)])
                    \<and> (best, max c1 (max c2 c3))
                        \<in> set [(''cardiology'', c1), (''psychology'', c2), (''pulmonology'', c3)]
                    \<and> map_of (agents (MedicalAgentRouter m)) best = Some a))"
  unfolding route_router [OF assms]
  by (auto simp: MedicalAgentRouter_def max_def)

theorem route_to_agent_threshold_witness:
  "(\<exists>scores. route_to_agent (MedicalAgentRouter ()) [] [] [] 
               = Inr (''general'', GeneralMedicineAgent (), scores)
            \<and> map_of scores ''general'' = Some 1)
   \<and> (\<exists>a. route_to_agent (MedicalAgentRouter ()) sample_report [] []
               = Inr (''cardiology'', a,
                      [(''cardiology'', 10 / 29), (''psychology'', 0), (''pulmonology'', 3 / 14)]))"
  using route_to_agent_threshold [OF blank_scores, of "[]"]
        route_to_agent_threshold [OF sample_scores, of "[]"]
  by auto

text \<open>
  C8. \<open>route_to_agent\<close> does not read \<open>medical_history\<close>, and it reads \<open>report_text\<close> and
  \<open>symptoms\<close> only through \<open>report_text + " " + symptoms\<close>: two calls on the same router
  with the same report and symptoms return the same key, agent and confidence map
  whatever the two histories are, and so do two calls whose concatenations agree.
\<close>

theorem route_to_agent_ignores_history:
  "route_to_agent r report_text symptoms h1 = route_to_agent r report_text symptoms h2
   \<and> (report_text @ ascii '' '' @ symptoms = report_text' @ ascii '' '' @ symptoms' \<longrightarrow>
        route_to_agent r report_text symptoms h1 = route_to_agent r report_text' symptoms' h2)"
  unfolding route_to_agent_def by (intro conjI impI) (simp_all only:)

theorem route_to_agent_ignores_history_witness:
  "ascii ''chest'' @ ascii '' '' @ ascii ''pain cough'' = ascii ''chest pain'' @ ascii '' '' @ ascii ''cough''
   \<and> route_to_agent (MedicalAgentRouter ()) (ascii ''chest'') (ascii ''pain cough'') (ascii ''asthma'')
       = route_to_agent (MedicalAgentRouter ()) (ascii ''chest pain'') (ascii ''cough'') []"
proof -
  have h: "ascii ''chest'' @ ascii '' '' @ ascii ''pain cough''
             = ascii ''chest pain'' @ ascii '' '' @ ascii ''cough''"
    by (simp add: ascii_def)
  from route_to_agent_ignores_history
         [of "MedicalAgentRouter ()" "ascii ''chest''" "ascii ''pain cough''" "ascii ''asthma''"
             "[]" "ascii ''chest pain''" "ascii ''cough''"] h
  show ?thesis by blast
qed

section \<open>Secondary agents\<close>

lemma secondary_loop_keys:
  "secondary_loop env template self pk r s h items acc w = Inr (sec, w') \<Longrightarrow>
   fst ` set sec = fst ` set acc \<union> {k. \<exists>c. (k, c) \<in> set items \<and> k \<noteq> pk \<and> 2 / 10 < c}"
proof (induction items arbitrary: acc w)
  case Nil
  then show ?case by simp
next
  case (Cons item items)
  obtain k c where item: "item = (k, c)" by (cases item)
  show ?case
  proof (cases "k \<noteq> pk \<and> 2 / 10 < c")
    case True
    with Cons.prems item obtain a where a: "map_of (agents self) k = Some a"
      by (auto split: option.splits)
    obtain t w1 where t: "analyze_report env template a r s h w = (t, w1)"
      by (cases "analyze_report env template a r s h w")
    from Cons.prems item True a t
    have "secondary_loop env template self pk r s h items
            (AList.update k \<lparr>s_agent = a, s_analysis = t, s_confidence = c\<rparr> acc) w1
          = Inr (sec, w')"
      by simp
    from Cons.IH [OF this] True item show ?thesis
      by (auto simp: AList.dom_update)
  next
    case False
    with Cons.prems item
    have "secondary_loop env template self pk r s h items acc w = Inr (sec, w')"
      by auto
    from Cons.IH [OF this] False item show ?thesis
      by auto
  qed
qed

lemma secondary_loop_total:
  "fst ` set items \<subseteq> fst ` set (agents self) \<Longrightarrow>
   \<exists>sec w'. secondary_loop env template self pk r s h items acc w = Inr (sec, w')"
proof (induction items arbitrary: acc w)
  case Nil
  then show ?case by simp
next
  case (Cons item items)
  obtain k c where item: "item = (k, c)" by (cases item)
  with Cons.prems have "k \<in> fst ` set (agents self)" by simp
  then obtain a where a: "map_of (agents self) k = Some a"
    by (metis domD dom_map_of_conv_image_fst)
  from Cons.prems have sub: "fst ` set items \<subseteq> fst ` set (agents self)" by simp
  show ?case
    using Cons.IH [OF sub] item a by (simp split: prod.splits)
qed

lemma route_router_cases:
  "\<exists>pk pa scores. route_to_agent (MedicalAgentRouter m) report_text symptoms medical_history
       = Inr (pk, pa, scores)
     \<and> distinct (map fst scores)
     \<and> fst ` set scores \<subseteq> fst ` set (agents (MedicalAgentRouter m))"
proof -
  obtain c1 c2 c3 where
    "get_confidence_score (CardiologistAgent m) (report_text @ ascii '' '' @ symptoms) = Inr c1"
    "get_confidence_score (PsychologistAgent m) (report_text @ ascii '' '' @ symptoms) = Inr c2"
    "get_confidence_score (PulmonologistAgent m) (report_text @ ascii '' '' @ symptoms) = Inr c3"
    using router_scores_exist [of m "report_text @ ascii '' '' @ symptoms"] by blast
  from route_router [OF this, of medical_history] show ?thesis
    by (simp add: MedicalAgentRouter_def)
qed

text \<open>
  C3. \<open>get_multi_agent_analysis\<close> returns on the router of the program, with the key
  and the confidence map that \<open>route_to_agent\<close> returned. For every key \<open>s\<close> other than
  the primary key, \<open>s\<close> is a key of the secondary dict if and only if the confidence map
  records a score for \<open>s\<close> and that score is above 0.2 (an agent that was not scored has
  no recorded score and is not a secondary agent). The primary key is never a key of
  the secondary dict.
\<close>

theorem secondary_set_law:
  "\<exists>res w'. get_multi_agent_analysis env template (MedicalAgentRouter m)
                report_text symptoms medical_history w = Inr (res, w')
     \<and> route_to_agent (MedicalAgentRouter m) report_text symptoms medical_history
         = Inr (p_key (res_primary_agent res), p_agent (res_primary_agent res),
                res_all_confidence_scores res)
     \<and> (\<forall>s. s \<noteq> p_key (res_primary_agent res) \<longrightarrow>
           (s \<in> fst ` set (res_secondary_agents res)
            \<longleftrightarrow> (\<exists>c. map_of (res_all_confidence_scores res) s = Some c \<and> 2 / 10 < c)))
     \<and> p_key (res_primary_agent res) \<notin> fst ` set (res_secondary_agents res)"
proof -
  let ?self = "MedicalAgentRouter m"
  obtain pk pa scores where
    route: "route_to_agent ?self report_text symptoms medical_history = Inr (pk, pa, scores)"
    and dist: "distinct (map fst scores)"
    and sub: "fst ` set scores \<subseteq> fst ` set (agents ?self)"
    using route_router_cases [of m report_text symptoms medical_history] by (elim exE conjE)
  obtain t w1 where
    prim: "analyze_report env template pa report_text symptoms medical_history w = (t, w1)"
    by (cases "analyze_report env template pa report_text symptoms medical_history w")
  obtain sec w2 where
    loop: "secondary_loop env template ?self pk report_text symptoms medical_history
             scores [] w1 = Inr (sec, w2)"
    using secondary_loop_total [where items = scores and self = ?self and env = env
        and template = template and pk = pk and r = report_text and s = symptoms
        and h = medical_history and acc = "[]" and w = w1, OF sub]
    by (elim exE)
  have keys: "fst ` set sec = {k. \<exists>c. (k, c) \<in> set scores \<and> k \<noteq> pk \<and> 2 / 10 < c}"
    using secondary_loop_keys [OF loop] by simp
  have mem: "(k, c) \<in> set scores \<longleftrightarrow> map_of scores k = Some c" for k c
    using dist by (rule map_of_eq_Some_iff [symmetric])
  let ?res = "\<lparr>res_primary_agent =
                 \<lparr>p_key = pk, p_agent = pa, p_analysis = t,
                  p_confidence = (case map_of scores pk of None \<Rightarrow> 1 | Some c \<Rightarrow> c)\<rparr>,
               res_secondary_agents = sec, res_all_confidence_scores = scores\<rparr>"
  have "get_multi_agent_analysis env template ?self report_text symptoms medical_history w
          = Inr (?res, w2)"
    by (simp add: get_multi_agent_analysis_def route prim loop)
  moreover have "\<forall>s. s \<noteq> pk \<longrightarrow>
      (s \<in> fst ` set sec \<longleftrightarrow> (\<exists>c. map_of scores s = Some c \<and> 2 / 10 < c))"
    unfolding keys mem by blast
  moreover have "pk \<notin> fst ` set sec"
    unfolding keys by simp
  ultimately show ?thesis
    using route by (intro exI [of _ ?res] exI [of _ w2]) (simp del: map_of_eq_Some_iff)
qed

theorem secondary_set_law_witness:
  "\<exists>res w'. get_multi_agent_analysis answering_backend plain_template (MedicalAgentRouter ())
                sample_report [] [] initial_world = Inr (res, w')
     \<and> p_key (res_primary_agent res) = ''cardiology''
     \<and> ''pulmonology'' \<noteq> p_key (res_primary_agent res)
     \<and> ''pulmonology'' \<in> fst ` set (res_secondary_agents res)
     \<and> ''psychology'' \<notin> fst ` set (res_secondary_agents res)
     \<and> ''general'' \<notin> fst ` set (res_secondary_agents res)
     \<and> ''cardiology'' \<notin> fst ` set (res_secondary_agents res)"
proof -
  have route: "route_to_agent (MedicalAgentRouter ()) sample_report [] []
                 = Inr (''cardiology'', CardiologistAgent (),
                        [(''cardiology'', 10 / 29), (''psychology'', 0), (''pulmonology'', 3 / 14)])"
    unfolding route_router [OF sample_scores] by simp
  from secondary_set_law [of answering_backend plain_template "()" sample_report "[]" "[]"
         initial_world]
  obtain res w' where
    res: "get_multi_agent_analysis answering_backend plain_template (MedicalAgentRouter ())
            sample_report [] [] initial_world = Inr (res, w')"
    and r: "route_to_agent (MedicalAgentRouter ()) sample_report [] []
              = Inr (p_key (res_primary_agent res), p_agent (res_primary_agent res),
                     res_all_confidence_scores res)"
    and law: "\<forall>s. s \<noteq> p_key (res_primary_agent res) \<longrightarrow>
           (s \<in> fst ` set (res_secondary_agents res)
            \<longleftrightarrow> (\<exists>c. map_of (res_all_confidence_scores res) s = Some c \<and> 2 / 10 < c))"
    and prim: "p_key (res_primary_agent res) \<notin> fst ` set (res_secondary_agents res)"
    by (elim exE conjE)
  from r have "Inr (''cardiology'', CardiologistAgent (),
                  [(''cardiology'', 10 / 29), (''psychology'', 0), (''pulmonology'', 3 / 14)])
              = (Inr (p_key (res_primary_agent res), p_agent (res_primary_agent res),
                      res_all_confidence_scores res)
                 :: error + string \<times> unit agent \<times> (string \<times> rat) list)"
    unfolding route .
  then have pk: "p_key (res_primary_agent res) = ''cardiology''"
    and sc: "res_all_confidence_scores res
               = [(''cardiology'', 10 / 29), (''psychology'', 0), (''pulmonology'', 3 / 14)]"
    by auto
  have "\<exists>c. map_of (res_all_confidence_scores res) ''pulmonology'' = Some c \<and> 2 / 10 < c"
    unfolding sc by (intro exI [of _ "3 / 14"]) simp
  moreover have "\<not> (\<exists>c. map_of (res_all_confidence_scores res) ''psychology'' = Some c
                      \<and> 2 / 10 < c)"
    unfolding sc by simp
  moreover have "\<not> (\<exists>c. map_of (res_all_confidence_scores res) ''general'' = Some c
                      \<and> 2 / 10 < c)"
    unfolding sc by simp
  moreover have "''pulmonology'' \<noteq> p_key (res_primary_agent res)"
    and "''psychology'' \<noteq> p_key (res_primary_agent res)"
    and "''general'' \<noteq> p_key (res_primary_agent res)"
    unfolding pk by simp_all
  ultimately have "''pulmonology'' \<in> fst ` set (res_secondary_agents res)"
    and "''psychology'' \<notin> fst ` set (res_secondary_agents res)"
    and "''general'' \<notin> fst ` set (res_secondary_agents res)"
    using law by blast+
  then show ?thesis
    using res pk prim by (intro exI [of _ res] exI [of _ w']) simp
qed

section \<open>The retry loop\<close>


















section \<open>Prompt truncation\<close>




















end
